theory Spec2Isabelle
  imports Main "HOL-Library.Word" "HOL-Library.Sublist" "HOL-Library.Log_Nat"
begin

unbundle bit_operations_syntax

section \<open>Strings\<close>

text \<open>
  A JavaScript string is a sequence of code units. It is modelled as a \<open>string\<close>, one
  \<open>char\<close> per code unit, which covers the strings whose code units are below 256. The
  code units that the program and the built-in functions single out (ASCII, and the
  no-break space among the white space of \<open>parseInt\<close>) are among them.
\<close>

abbreviation backslash :: char where
  "backslash \<equiv> CHR 0x5C"

abbreviation newline :: char where
  "newline \<equiv> CHR 0x0A"

text \<open>\<open>String.prototype.includes\<close>: the second string occurs somewhere in the first.\<close>

fun string_includes :: "string \<Rightarrow> string \<Rightarrow> bool" where
  "string_includes [] t = (t = [])"
| "string_includes (c # cs) t = (prefix t (c # cs) \<or> string_includes cs t)"

text \<open>
  Numbers are turned into text by template literals. For an integer that is its decimal
  numeral, with a minus sign when it is negative.
\<close>

function digits :: "int \<Rightarrow> string" where
  "digits n = (if n < 10 then [''0123456789'' ! nat n]
               else digits (n div 10) @ [''0123456789'' ! nat (n mod 10)])"
  by pat_completeness auto
termination
  by (relation "measure nat") auto

declare digits.simps [simp del]

definition toString :: "int \<Rightarrow> string" where
  "toString i = (if i < 0 then CHR ''-'' # digits (- i) else digits i)"

text \<open>What the program throws: a \<open>TypeError\<close> of the runtime, or its own \<open>Error\<close>.\<close>

datatype js_error = TypeError | Error string

section \<open>\<open>replaceAll\<close>\<close>

text \<open>
  \<^verbatim>\<open>find.replace(/[-\/\\^$*+?.()|[\]{}]/g, "\\$&")\<close> puts a backslash before each of the
  characters of the class.
\<close>

definition syntax_characters :: "char list" where
  "syntax_characters = ''-/'' @ [backslash] @ ''^$*+?.()|[]{}''"

fun escape_find :: "string \<Rightarrow> string" where
  "escape_find [] = []"
| "escape_find (c # cs) =
     (if c \<in> set syntax_characters then backslash # c # escape_find cs
      else c # escape_find cs)"

text \<open>
  \<open>new RegExp(source, "g")\<close> for a source in which every syntax character is escaped:
  a backslash and the character behind it stand for that character, any other
  character stands for itself. The pattern is the sequence of these characters.
\<close>

fun pattern_characters :: "string \<Rightarrow> string" where
  "pattern_characters (c # d # rest) =
     (if c = backslash then d # pattern_characters rest
      else c # pattern_characters (d # rest))"
| "pattern_characters cs = cs"

text \<open>
  \<open>GetSubstitution\<close> of ECMAScript for a match without capture groups: in the
  replacement text \<open>$$\<close> stands for a dollar sign, \<open>$&\<close> for the matched text, \<open>$\<close>
  and a backquote for the text before the match, \<open>$\<close> and a quote for the text after
  it; everything else is copied.
\<close>

fun getSubstitution :: "string \<Rightarrow> string \<Rightarrow> string \<Rightarrow> string \<Rightarrow> string" where
  "getSubstitution matched preceding following [] = []"
| "getSubstitution matched preceding following [c] = [c]"
| "getSubstitution matched preceding following (c # d # rest) =
     (if c = CHR ''$'' \<and> d = CHR ''$''
      then CHR ''$'' # getSubstitution matched preceding following rest
      else if c = CHR ''$'' \<and> d = CHR ''&''
      then matched @ getSubstitution matched preceding following rest
      else if c = CHR ''$'' \<and> d = CHR 0x60
      then preceding @ getSubstitution matched preceding following rest
      else if c = CHR ''$'' \<and> d = CHR 0x27
      then following @ getSubstitution matched preceding following rest
      else c # getSubstitution matched preceding following (d # rest))"

text \<open>
  \<open>String.prototype.replace\<close> with a global pattern of literal characters: the matches
  are found from the left, each search starting behind the previous match; the text of
  the string before the match is carried along for \<open>GetSubstitution\<close>. The empty
  pattern matches before every code unit and at the end.
\<close>

function replace_matches :: "string \<Rightarrow> string \<Rightarrow> string \<Rightarrow> string \<Rightarrow> string" where
  "replace_matches pattern replace preceding [] =
     (if pattern = [] then getSubstitution [] preceding [] replace else [])"
| "replace_matches pattern replace preceding (c # cs) =
     (if pattern = [] then
        getSubstitution [] preceding (c # cs) replace
          @ c # replace_matches pattern replace (preceding @ [c]) cs
      else if prefix pattern (c # cs) then
        getSubstitution pattern preceding (drop (length pattern) (c # cs)) replace
          @ replace_matches pattern replace (preceding @ pattern)
              (drop (length pattern) (c # cs))
      else c # replace_matches pattern replace (preceding @ [c]) cs)"
  by pat_completeness auto
termination
  by (relation "measure (\<lambda>(p, r, b, s). length s)") auto

definition replaceAll :: "string \<Rightarrow> string \<Rightarrow> string \<Rightarrow> string" where
  "replaceAll str find' replace =
     replace_matches (pattern_characters (escape_find find')) replace [] str"

section \<open>\<open>colorHexToRGB\<close>\<close>

text \<open>
  A Number is not a number, an infinity (\<open>True\<close> for the negative one) or a finite
  value; \<open>parseInt\<close> only yields integers, so a finite value is an \<open>int\<close>.
\<close>

datatype number = NaN | Infinity bool | Finite int

text \<open>
  The Number value for an integer: the integer itself below \<open>2 ^ 53\<close>, otherwise the
  nearest double, ties to the even significand, and an infinity from
  \<open>2 ^ 1024 - 2 ^ 970\<close> on.
\<close>

definition to_double :: "int \<Rightarrow> number" where
  "to_double i =
     (let n = \<bar>i\<bar>
      in if n < 2 ^ 53 then Finite i
         else
           (let e = nat (bitlen n - 53);
                q = n div 2 ^ e;
                r = n mod 2 ^ e;
                half = 2 ^ (e - 1);
                q' = (if half < r \<or> (r = half \<and> odd q) then q + 1 else q);
                m = q' * 2 ^ e
            in if 2 ^ 1024 \<le> m then Infinity (i < 0) else Finite (sgn i * m)))"

text \<open>
  \<open>parseInt(string)\<close> without a radix, as ECMAScript defines it: leading white space
  is skipped, a sign is read, \<open>0x\<close> or \<open>0X\<close> selects radix 16 and is skipped, otherwise
  the radix is 10; the longest run of digits of the radix is the numeral, and without
  a digit the result is \<open>NaN\<close>.
\<close>

definition isStrWhiteSpaceChar :: "char \<Rightarrow> bool" where
  "isStrWhiteSpaceChar c =
     (c \<in> set [CHR 0x09, CHR 0x0A, CHR 0x0B, CHR 0x0C, CHR 0x0D, CHR 0x20, CHR 0xA0])"

definition digit_value :: "char \<Rightarrow> int option" where
  "digit_value c =
     (let n = (of_char c :: int)
      in if 48 \<le> n \<and> n \<le> 57 then Some (n - 48)
         else if 97 \<le> n \<and> n \<le> 122 then Some (n - 87)
         else if 65 \<le> n \<and> n \<le> 90 then Some (n - 55)
         else None)"

definition is_digit :: "int \<Rightarrow> char \<Rightarrow> bool" where
  "is_digit R c = (case digit_value c of Some d \<Rightarrow> d < R | None \<Rightarrow> False)"

definition mathInt :: "int \<Rightarrow> string \<Rightarrow> int" where
  "mathInt R Z =
     foldl (\<lambda>acc c. acc * R + (case digit_value c of Some d \<Rightarrow> d | None \<Rightarrow> 0)) 0 Z"

definition strip_sign :: "string \<Rightarrow> int \<times> string" where
  "strip_sign s =
     (case s of
        [] \<Rightarrow> (1, s)
      | c # rest \<Rightarrow>
          if c = CHR ''-'' then (- 1, rest)
          else if c = CHR ''+'' then (1, rest)
          else (1, s))"

definition hex_prefixed :: "string \<Rightarrow> bool" where
  "hex_prefixed s = (take 2 s = ''0x'' \<or> take 2 s = ''0X'')"

definition parse_digits :: "int \<Rightarrow> int \<Rightarrow> string \<Rightarrow> number" where
  "parse_digits R sign s =
     (let Z = takeWhile (is_digit R) s
      in if Z = [] then NaN else to_double (sign * mathInt R Z))"

definition parseInt :: "string \<Rightarrow> number" where
  "parseInt string =
     (let (sign, s) = strip_sign (dropWhile isStrWhiteSpaceChar string)
      in if hex_prefixed s then parse_digits 16 sign (drop 2 s)
         else parse_digits 10 sign s)"

text \<open>
  \<open>ToInt32\<close>, which the operators \<open>>>\<close> and \<open>&\<close> apply to their operands: \<open>NaN\<close> and the
  infinities give 0, a finite integer is taken modulo \<open>2 ^ 32\<close>.
\<close>

definition ToInt32 :: "number \<Rightarrow> 32 word" where
  "ToInt32 v = (case v of Finite i \<Rightarrow> word_of_int i | _ \<Rightarrow> 0)"

definition colorHexToRGB :: "string \<Rightarrow> string" where
  "colorHexToRGB hexColor =
     (let v = parseInt (drop 1 hexColor);
          r = signed_drop_bit 16 (ToInt32 v) AND 0xff;
          g = signed_drop_bit 8 (ToInt32 v) AND 0xff;
          b = ToInt32 v AND 0xff
      in toString (sint r) @ '', '' @ toString (sint g) @ '', '' @ toString (sint b))"

section \<open>\<open>valueForVariable\<close> and \<open>assignVariables\<close>\<close>

text \<open>
  \<open>SelectVariableOption\<close>, \<open>Variable\<close> and \<open>Metadata\<close> of \<open>usercss-meta.d.ts\<close>, with
  the fields the program reads. For \<open>options\<close> and \<open>units\<close>, \<open>None\<close> is \<open>null\<close> or
  \<open>undefined\<close>; for \<open>preprocessor\<close> and \<open>vars\<close>, which are declared optional and not
  nullable, \<open>None\<close> is the absent field (\<open>undefined\<close>). The variables are listed in the
  order in which \<open>Object.keys(vars)\<close> enumerates them.
\<close>

record select_option =
  option_name :: string
  option_label :: string
  option_value :: string

record variable =
  var_type :: string
  var_default :: string
  var_options :: "select_option list option"
  var_units :: "string option"

record metadata =
  preprocessor :: "string option"
  vars :: "(string \<times> variable) list option"

text \<open>
  \<open>variable.options.find(...).value\<close>: reading \<open>find\<close> of \<open>null\<close>, and reading \<open>value\<close> of
  the \<open>undefined\<close> that \<open>find\<close> returns when no option matches, throw a \<open>TypeError\<close>.
\<close>

definition valueForVariable :: "variable \<Rightarrow> js_error + string" where
  "valueForVariable v =
     (if var_type v = ''select'' \<or> var_type v = ''dropdown'' \<or> var_type v = ''image'' then
        (case var_options v of
           None \<Rightarrow> Inl TypeError
         | Some options \<Rightarrow>
             (case find (\<lambda>option. option_name option = var_default v) options of
                None \<Rightarrow> Inl TypeError
              | Some option \<Rightarrow> Inr (option_value option)))
      else if var_type v = ''number'' \<or> var_type v = ''range'' then
        Inr (var_default v @ (case var_units v of None \<Rightarrow> [] | Some units \<Rightarrow> units))
      else Inr (var_default v))"

text \<open>The function given to \<open>reduce\<close>, for one variable name.\<close>

definition assign_variable :: "string \<Rightarrow> string \<times> variable \<Rightarrow> js_error + string" where
  "assign_variable style entry =
     (case entry of (name, v) \<Rightarrow>
        (case valueForVariable v of
           Inl e \<Rightarrow> Inl e
         | Inr resolved \<Rightarrow>
             (let newStyle = replaceAll style (''/*[['' @ name @ '']]*/'') resolved
              in if var_type v = ''color'' then
                   (case valueForVariable v of
                      Inl e \<Rightarrow> Inl e
                    | Inr hexColor \<Rightarrow>
                        Inr (replaceAll newStyle (''/*[['' @ name @ ''-rgb]]*/'')
                               (colorHexToRGB hexColor)))
                 else Inr newStyle)))"

fun reduce :: "(string \<times> variable) list \<Rightarrow> string \<Rightarrow> js_error + string" where
  "reduce [] style = Inr style"
| "reduce (entry # entries) style =
     (case assign_variable style entry of
        Inl e \<Rightarrow> Inl e
      | Inr newStyle \<Rightarrow> reduce entries newStyle)"

definition assignVariables :: "string \<Rightarrow> metadata \<Rightarrow> js_error + string" where
  "assignVariables styleText m =
     (case preprocessor m of
        None \<Rightarrow> Inr styleText
      | Some p \<Rightarrow>
          if p = ''default'' then Inr styleText
          else if p = ''uso'' then
            (case vars m of
               None \<Rightarrow> Inl TypeError
             | Some entries \<Rightarrow> reduce entries styleText)
          else Inl (Error ''preprocessor not implemented''))"

section \<open>\<open>escapeCSSRegExp\<close>\<close>

text \<open>
  \<^verbatim>\<open>regexp.replace(/([^\\]\\)/g, "$1\\")\<close>: the global replace scans from the left; at
  the first position holding a code unit other than a backslash followed by a backslash
  it emits the match (\<open>$1\<close>) and one more backslash and goes on behind the match;
  every other code unit is copied.
\<close>

fun replace_single_escapes :: "string \<Rightarrow> string" where
  "replace_single_escapes (c # d # rest) =
     (if c \<noteq> backslash \<and> d = backslash
      then c # backslash # backslash # replace_single_escapes rest
      else c # replace_single_escapes (d # rest))"
| "replace_single_escapes cs = cs"

definition escapeCSSRegExp :: "string \<Rightarrow> string" where
  "escapeCSSRegExp regexp =
     (if string_includes regexp [backslash, backslash] then regexp
      else replace_single_escapes regexp)"

section \<open>\<open>adjustPriority\<close>\<close>

text \<open>
  \<^verbatim>\<open>styleText.replace(/(: ?[^\!]*?);\n/g, "$1 !important;\n")\<close>.

  \<open>value_then_end\<close> is the part \<^verbatim>\<open>[^\!]*?;\n\<close> of the pattern, tried on the text behind
  the colon: the lazy star first tries the semicolon and the newline, and takes one
  more code unit other than \<open>!\<close> when they are not there. It returns the text the star
  took and the text behind the match.
\<close>

fun value_then_end :: "string \<Rightarrow> (string \<times> string) option" where
  "value_then_end [] = None"
| "value_then_end (c # cs) =
     (if c = CHR '';'' \<and> take 1 cs = [newline] then Some ([], drop 1 cs)
      else if c = CHR ''!'' then None
      else map_option (\<lambda>(body, rest). (c # body, rest)) (value_then_end cs))"

text \<open>
  The optional space \<^verbatim>\<open> ?\<close> is greedy: the match is first tried with the space taken
  by it, then without.
\<close>

definition match_after_colon :: "string \<Rightarrow> (string \<times> string) option" where
  "match_after_colon t =
     (case t of
        [] \<Rightarrow> value_then_end t
      | c # t' \<Rightarrow>
          if c = CHR '' '' then
            (case value_then_end t' of
               Some (body, rest) \<Rightarrow> Some (c # body, rest)
             | None \<Rightarrow> value_then_end t)
          else value_then_end t)"

lemma value_then_end_shorter:
  "value_then_end t = Some (body, rest) \<Longrightarrow> length rest < length t"
  by (induction t arbitrary: body) (auto split: if_splits)

lemma match_after_colon_eq: "match_after_colon t = value_then_end t"
  by (cases t) (auto simp: match_after_colon_def split: option.splits)

text \<open>
  The global replace: the leftmost colon from which the pattern matches starts a
  match, the match is replaced by its group, \<open> !important\<close>, the semicolon and the
  newline, and the search goes on behind the match.
\<close>

function adjustPriority :: "string \<Rightarrow> string" where
  "adjustPriority [] = []"
| "adjustPriority (c # cs) =
     (if c = CHR '':'' then
        (case match_after_colon cs of
           Some (body, rest) \<Rightarrow>
             c # body @ '' !important;'' @ newline # adjustPriority rest
         | None \<Rightarrow> c # adjustPriority cs)
      else c # adjustPriority cs)"
  by pat_completeness auto
termination
  by (relation "measure length")
    (auto simp: match_after_colon_eq dest: value_then_end_shorter)

section \<open>The syntax tree of css-tree\<close>

text \<open>
  The program reads and writes the tree that \<open>csstree.parse\<close> builds. Of a style
  sheet the model keeps what the three walks of \<open>validateAndTransformCSS\<close> look at:
  the at-rules with their name, prelude and block, the rules with their block, the
  declarations, and inside an at-rule prelude the nodes as the program reads them
  (\<open>type\<close>, \<open>loc.start\<close>, \<open>name\<close>, \<open>value\<close>, \<open>children\<close>). A style sheet is the list of
  its children; a prelude that is \<open>null\<close> or raw text is \<open>None\<close>, and so is a missing
  block. Selectors and declaration values are kept as text.
\<close>

datatype position = Position (line: nat) (column: nat)

datatype important = Flag bool | Custom string

datatype prelude_node =
  PreludeNode (node_type: string) (node_loc: position) (node_name: string)
    (node_value: string) (node_children: "prelude_node list")

datatype node =
    Atrule string "prelude_node list option" "node list option"
  | Rule string "node list"
  | Declaration (declaration_loc: position) (declaration_important: important)
      (property: string) (declaration_value: string)
  | Other string

text \<open>
  The error of \<open>lexer.matchDeclaration(node).error\<close>, with the fields the program
  reads, and its text as \<open>String(error)\<close> gives it.
\<close>

datatype match_error =
  MatchError (error_name: string) (rawMessage: "string option") (message: "string option")
    (error_line: "nat option") (error_column: "nat option") (error_text: string)

text \<open>
  The library is not part of the repository: its parser (with the errors it hands to
  \<open>onParseError\<close>), its lexer and its generator are parameters of the model.
\<close>

record csstree =
  parse :: "string \<Rightarrow> node list \<times> string list"
  matchDeclaration :: "node \<Rightarrow> match_error option"
  generate :: "node list \<Rightarrow> string"

text \<open>
  An entry of \<open>errors\<close>: an error object of the parser, or a line of text pushed by the
  program.
\<close>

datatype report = SyntaxError string | Line string

record result =
  errors :: "report list"
  warnings :: "string list"
  transformed :: string

section \<open>\<open>validateAndTransformCSS\<close>\<close>

text \<open>
  \<open>csstree.walk\<close> with \<open>visit: "Declaration"\<close> goes through the style sheet, the
  blocks of the at-rules and of the rules, and calls \<open>enter\<close> on every declaration, in
  the order of the text. \<open>declarations\<close> lists the nodes it visits.
\<close>

fun declarations :: "node \<Rightarrow> node list" where
  "declarations (Atrule name prelude block) =
     (case block of None \<Rightarrow> [] | Some children \<Rightarrow> concat (map declarations children))"
| "declarations (Rule prelude children) = concat (map declarations children)"
| "declarations (Declaration loc imp prop v) = [Declaration loc imp prop v]"
| "declarations (Other text) = []"

text \<open>
  The first walk's \<open>enter\<close>: \<open>Some\<close> of the line it pushes to \<open>errors\<close>, or \<open>None\<close> when
  it returns without pushing. \<open>a || b\<close> takes \<open>b\<close> when \<open>a\<close> is undefined, the empty string
  or 0; where \<open>message\<close> ends up as the error object, it is not \<open>"Mismatch"\<close> and prints
  as the error does.
\<close>

definition truthy :: "string option \<Rightarrow> bool" where
  "truthy s = (s \<noteq> None \<and> s \<noteq> Some [])"

definition or_number :: "nat option \<Rightarrow> nat \<Rightarrow> nat" where
  "or_number a b = (case a of None \<Rightarrow> b | Some n \<Rightarrow> if n = 0 then b else n)"

definition declaration_report :: "csstree \<Rightarrow> node \<Rightarrow> string option" where
  "declaration_report lib nd =
     (case matchDeclaration lib nd of
        None \<Rightarrow> None
      | Some error \<Rightarrow>
          if error_name error \<noteq> ''SyntaxMatchError''
             \<and> error_name error \<noteq> ''SyntaxReferenceError''
          then None
          else
            (let message0 =
                   (if truthy (rawMessage error) then rawMessage error
                    else if truthy (message error) then message error
                    else None);
                 message1 =
                   (case message0 of
                      None \<Rightarrow> error_text error
                    | Some m \<Rightarrow>
                        if m = ''Mismatch''
                        then ''Invalid value for '' @ [CHR 0x60] @ property nd @ [CHR 0x60]
                        else m);
                 l = or_number (error_line error) (line (declaration_loc nd));
                 c = or_number (error_column error) (column (declaration_loc nd))
             in Some (toString (int l) @ '':'' @ toString (int c) @ '' ('' @ property nd
                      @ ''): '' @ message1 @ [newline] @ error_text error)))"

text \<open>The second walk sets \<open>important\<close> of every declaration it visits.\<close>

fun mark_important :: "node \<Rightarrow> node" where
  "mark_important (Atrule name prelude block) =
     Atrule name prelude (map_option (map mark_important) block)"
| "mark_important (Rule prelude children) = Rule prelude (map mark_important children)"
| "mark_important (Declaration loc imp prop v) = Declaration loc (Flag True) prop v"
| "mark_important (Other text) = Other text"

text \<open>
  The third walk threads \<open>errors\<close> and \<open>warnings\<close> through the tree. The function
  given to \<open>node.children.forEach\<close>: \<open>children.first()\<close> of an empty list is \<open>null\<close>, and
  reading its \<open>loc\<close> throws.
\<close>

type_synonym lists = "report list \<times> string list"

definition fix_prelude_function ::
    "prelude_node \<Rightarrow> lists \<Rightarrow> js_error + prelude_node \<times> lists" where
  "fix_prelude_function preludeFunction st =
     (if node_type preludeFunction \<noteq> ''Function'' \<or> node_name preludeFunction \<noteq> ''regexp''
      then Inr (preludeFunction, st)
      else
        (case node_children preludeFunction of
           [] \<Rightarrow> Inl TypeError
         | regexp # others \<Rightarrow>
             (let loc = toString (int (line (node_loc regexp))) @ '':''
                        @ toString (int (column (node_loc regexp)))
              in if node_type regexp \<noteq> ''String''
                 then Inr (preludeFunction,
                           fst st @ [Line (loc @ '': regexp() argument must be a String'')],
                           snd st)
                 else
                   (let escaped = escapeCSSRegExp (node_value regexp)
                    in Inr (PreludeNode (node_type preludeFunction) (node_loc preludeFunction)
                              (node_name preludeFunction) (node_value preludeFunction)
                              (PreludeNode (node_type regexp) (node_loc regexp)
                                 (node_name regexp) escaped (node_children regexp) # others),
                            fst st,
                            if node_value regexp \<noteq> escaped
                            then snd st @ [loc @ '': Fixed escaping in regexp(''
                                           @ node_value regexp @ '')'']
                            else snd st)))))"

fun for_each :: "prelude_node list \<Rightarrow> lists \<Rightarrow> js_error + prelude_node list \<times> lists" where
  "for_each [] st = Inr ([], st)"
| "for_each (c # cs) st =
     (case fix_prelude_function c st of
        Inl e \<Rightarrow> Inl e
      | Inr (c', st') \<Rightarrow>
          (case for_each cs st' of
             Inl e \<Rightarrow> Inl e
           | Inr (cs', st'') \<Rightarrow> Inr (c' # cs', st'')))"

text \<open>The third walk's \<open>enter\<close>, on the prelude of the at-rule \<open>name\<close>.\<close>

definition enter_prelude ::
    "string \<Rightarrow> prelude_node list option \<Rightarrow> lists
     \<Rightarrow> js_error + prelude_node list option \<times> lists" where
  "enter_prelude name prelude st =
     (case prelude of
        None \<Rightarrow> Inr (None, st)
      | Some children \<Rightarrow>
          if name \<noteq> ''-moz-document'' \<and> name \<noteq> ''document'' then Inr (prelude, st)
          else
            (case for_each children st of
               Inl e \<Rightarrow> Inl e
             | Inr (children', st') \<Rightarrow> Inr (Some children', st')))"

fun fix_regexps :: "node \<Rightarrow> lists \<Rightarrow> js_error + node \<times> lists"
  and fix_regexps_list :: "node list \<Rightarrow> lists \<Rightarrow> js_error + node list \<times> lists" where
  "fix_regexps (Atrule name prelude block) st =
     (case enter_prelude name prelude st of
        Inl e \<Rightarrow> Inl e
      | Inr (prelude', st') \<Rightarrow>
          (case block of
             None \<Rightarrow> Inr (Atrule name prelude' None, st')
           | Some children \<Rightarrow>
               (case fix_regexps_list children st' of
                  Inl e \<Rightarrow> Inl e
                | Inr (children', st'') \<Rightarrow> Inr (Atrule name prelude' (Some children'), st''))))"
| "fix_regexps (Rule prelude children) st =
     (case fix_regexps_list children st of
        Inl e \<Rightarrow> Inl e
      | Inr (children', st') \<Rightarrow> Inr (Rule prelude children', st'))"
| "fix_regexps (Declaration loc imp prop v) st = Inr (Declaration loc imp prop v, st)"
| "fix_regexps (Other text) st = Inr (Other text, st)"
| "fix_regexps_list [] st = Inr ([], st)"
| "fix_regexps_list (n # ns) st =
     (case fix_regexps n st of
        Inl e \<Rightarrow> Inl e
      | Inr (n', st') \<Rightarrow>
          (case fix_regexps_list ns st' of
             Inl e \<Rightarrow> Inl e
           | Inr (ns', st'') \<Rightarrow> Inr (n' # ns', st'')))"

text \<open>The errors collected by the parser and by the first walk.\<close>

definition collected_errors :: "csstree \<Rightarrow> string \<Rightarrow> report list" where
  "collected_errors lib css =
     (case parse lib css of (ast, parse_errors) \<Rightarrow>
        map SyntaxError parse_errors
        @ map Line (List.map_filter (declaration_report lib) (concat (map declarations ast))))"

definition validateAndTransformCSS :: "csstree \<Rightarrow> string \<Rightarrow> js_error + result" where
  "validateAndTransformCSS lib css =
     (case parse lib css of (ast, parse_errors) \<Rightarrow>
        (let errors0 = collected_errors lib css
         in if errors0 \<noteq> [] then
              Inr \<lparr>errors = errors0, warnings = [], transformed = css\<rparr>
            else
              (case fix_regexps_list (map mark_important ast) (errors0, []) of
                 Inl e \<Rightarrow> Inl e
               | Inr (ast', errors1, warnings1) \<Rightarrow>
                   Inr \<lparr>errors = errors1, warnings = warnings1,
                        transformed = generate lib ast'\<rparr>)))"

section \<open>The repair of \<open>escapeCSSRegExp\<close>, position by position\<close>

text \<open>
  The claim's wording of the repair, position by position: the backslash of every
  occurrence of "a code unit other than a backslash, then a backslash" is followed by
  an inserted backslash; every other code unit stays as it is.
\<close>

definition insert_after_occurrences :: "string \<Rightarrow> string" where
  "insert_after_occurrences s =
     concat (map (\<lambda>i. if 0 < i \<and> s ! i = backslash \<and> s ! (i - 1) \<noteq> backslash
                       then [backslash, backslash] else [s ! i])
                 [0..<length s])"

text \<open>The same, told with the preceding code unit carried along.\<close>

fun insert_from :: "char option \<Rightarrow> string \<Rightarrow> string" where
  "insert_from prev [] = []"
| "insert_from prev (c # cs) =
     (if c = backslash \<and> prev \<noteq> None \<and> prev \<noteq> Some backslash
      then [backslash, backslash] else [c]) @ insert_from (Some c) cs"

lemma insert_from_positions:
  "insert_from prev s =
     concat (map (\<lambda>i. if s ! i = backslash \<and>
                          (if i = 0 then prev \<noteq> None \<and> prev \<noteq> Some backslash
                           else s ! (i - 1) \<noteq> backslash)
                       then [backslash, backslash] else [s ! i])
                 [0..<length s])"
proof (induction s arbitrary: prev)
  case Nil
  show ?case by simp
next
  case (Cons c cs)
  have shift: "[0..<length (c # cs)] = 0 # map Suc [0..<length cs]"
    by (simp add: upt_conv_Cons map_Suc_upt del: upt_Suc)
  have tail: "map (\<lambda>i. if (c # cs) ! i = backslash \<and>
                          (if i = 0 then prev \<noteq> None \<and> prev \<noteq> Some backslash
                           else (c # cs) ! (i - 1) \<noteq> backslash)
                       then [backslash, backslash] else [(c # cs) ! i])
                 (map Suc [0..<length cs])
            = map (\<lambda>i. if cs ! i = backslash \<and>
                          (if i = 0 then Some c \<noteq> None \<and> Some c \<noteq> Some backslash
                           else cs ! (i - 1) \<noteq> backslash)
                       then [backslash, backslash] else [cs ! i])
                 [0..<length cs]"
    by (auto simp: nth_Cons split: nat.splits)
  show ?case
    unfolding shift list.map concat.simps tail
    by (simp add: Cons.IH [of "Some c"])
qed

lemma insert_after_occurrences_from:
  "insert_after_occurrences s = insert_from None s"
  unfolding insert_after_occurrences_def insert_from_positions
  by (rule arg_cong [where f = concat], rule map_cong) auto

lemma replace_single_escapes_from:
  "s = [] \<or> hd s \<noteq> backslash \<or> prev = None \<or> prev = Some backslash
   \<Longrightarrow> replace_single_escapes s = insert_from prev s"
proof (induction s arbitrary: prev rule: replace_single_escapes.induct)
  case (1 c d rest)
  show ?case
  proof (cases "c \<noteq> backslash \<and> d = backslash")
    case True
    then have "replace_single_escapes rest = insert_from (Some backslash) rest"
      using "1.IH"(1) [of "Some backslash"] by simp
    with True show ?thesis by simp
  next
    case False
    then have "replace_single_escapes (d # rest) = insert_from (Some c) (d # rest)"
      using "1.IH"(2) [of "Some c"] by auto
    with False "1.prems" show ?thesis by auto
  qed
qed auto

section \<open>Errors of \<open>regexp()\<close> arguments\<close>

text \<open>
  The \<open>regexp()\<close> calls of the claim, read off the tree: the children of the prelude
  of an at-rule named \<open>document\<close> or \<open>-moz-document\<close> that are functions named \<open>regexp\<close>
  and whose first child is not a \<open>String\<close>; for each of them the line the program
  pushes, in the order of the text.
\<close>

definition regexp_argument_error :: "prelude_node \<Rightarrow> string list" where
  "regexp_argument_error f =
     (if node_type f = ''Function'' \<and> node_name f = ''regexp'' then
        (case node_children f of
           [] \<Rightarrow> []
         | regexp # others \<Rightarrow>
             if node_type regexp \<noteq> ''String''
             then [toString (int (line (node_loc regexp))) @ '':''
                   @ toString (int (column (node_loc regexp)))
                   @ '': regexp() argument must be a String'']
             else [])
      else [])"

fun regexp_argument_errors :: "node \<Rightarrow> string list" where
  "regexp_argument_errors (Atrule name prelude block) =
     (case prelude of
        None \<Rightarrow> []
      | Some children \<Rightarrow>
          if name = ''-moz-document'' \<or> name = ''document''
          then concat (map regexp_argument_error children) else [])
     @ (case block of
          None \<Rightarrow> []
        | Some children \<Rightarrow> concat (map regexp_argument_errors children))"
| "regexp_argument_errors (Rule prelude children) =
     concat (map regexp_argument_errors children)"
| "regexp_argument_errors (Declaration loc imp prop v) = []"
| "regexp_argument_errors (Other text) = []"

text \<open>
  The same for the rest of the third walk: the \<open>regexp()\<close> calls without any argument,
  on which the walk throws; the tree with the string arguments repaired; and the
  warnings.
\<close>

definition lacks_argument :: "prelude_node \<Rightarrow> bool" where
  "lacks_argument f =
     (node_type f = ''Function'' \<and> node_name f = ''regexp'' \<and> node_children f = [])"

fun regexp_without_argument :: "node \<Rightarrow> bool" where
  "regexp_without_argument (Atrule name prelude block) =
     ((case prelude of
         None \<Rightarrow> False
       | Some children \<Rightarrow>
           (name = ''-moz-document'' \<or> name = ''document'') \<and> list_ex lacks_argument children)
      \<or> (case block of
            None \<Rightarrow> False
          | Some children \<Rightarrow> list_ex regexp_without_argument children))"
| "regexp_without_argument (Rule prelude children) = list_ex regexp_without_argument children"
| "regexp_without_argument (Declaration loc imp prop v) = False"
| "regexp_without_argument (Other t) = False"

definition repair_argument :: "prelude_node \<Rightarrow> prelude_node" where
  "repair_argument f =
     (if node_type f = ''Function'' \<and> node_name f = ''regexp'' then
        (case node_children f of
           [] \<Rightarrow> f
         | regexp # others \<Rightarrow>
             if node_type regexp = ''String''
             then PreludeNode (node_type f) (node_loc f) (node_name f) (node_value f)
                    (PreludeNode (node_type regexp) (node_loc regexp) (node_name regexp)
                       (escapeCSSRegExp (node_value regexp)) (node_children regexp) # others)
             else f)
      else f)"

definition repair_warning :: "prelude_node \<Rightarrow> string list" where
  "repair_warning f =
     (if node_type f = ''Function'' \<and> node_name f = ''regexp'' then
        (case node_children f of
           [] \<Rightarrow> []
         | regexp # others \<Rightarrow>
             if node_type regexp = ''String''
                \<and> node_value regexp \<noteq> escapeCSSRegExp (node_value regexp)
             then [toString (int (line (node_loc regexp))) @ '':''
                   @ toString (int (column (node_loc regexp)))
                   @ '': Fixed escaping in regexp('' @ node_value regexp @ '')'']
             else [])
      else [])"

fun repair :: "node \<Rightarrow> node" where
  "repair (Atrule name prelude block) =
     Atrule name
       (if name = ''-moz-document'' \<or> name = ''document''
        then map_option (map repair_argument) prelude else prelude)
       (map_option (map repair) block)"
| "repair (Rule prelude children) = Rule prelude (map repair children)"
| "repair (Declaration loc imp prop v) = Declaration loc imp prop v"
| "repair (Other t) = Other t"

fun repair_warnings :: "node \<Rightarrow> string list" where
  "repair_warnings (Atrule name prelude block) =
     (case prelude of
        None \<Rightarrow> []
      | Some children \<Rightarrow>
          if name = ''-moz-document'' \<or> name = ''document''
          then concat (map repair_warning children) else [])
     @ (case block of
          None \<Rightarrow> []
        | Some children \<Rightarrow> concat (map repair_warnings children))"
| "repair_warnings (Rule prelude children) = concat (map repair_warnings children)"
| "repair_warnings (Declaration loc imp prop v) = []"
| "repair_warnings (Other t) = []"

lemma fix_prelude_function_result:
  "fix_prelude_function f (es, ws) =
     (if lacks_argument f then Inl TypeError
      else Inr (repair_argument f, es @ map Line (regexp_argument_error f),
                ws @ repair_warning f))"
  by (auto simp: fix_prelude_function_def regexp_argument_error_def repair_argument_def
      repair_warning_def lacks_argument_def Let_def split: list.splits)

lemma for_each_result:
  "for_each cs (es, ws) =
     (if list_ex lacks_argument cs then Inl TypeError
      else Inr (map repair_argument cs,
                es @ map Line (concat (map regexp_argument_error cs)),
                ws @ concat (map repair_warning cs)))"
  by (induction cs arbitrary: es ws) (simp_all add: fix_prelude_function_result)

lemma enter_prelude_result:
  "enter_prelude name prelude (es, ws) =
     (case prelude of
        None \<Rightarrow> Inr (None, es, ws)
      | Some children \<Rightarrow>
          if name \<noteq> ''-moz-document'' \<and> name \<noteq> ''document'' then Inr (prelude, es, ws)
          else if list_ex lacks_argument children then Inl TypeError
          else Inr (Some (map repair_argument children),
                    es @ map Line (concat (map regexp_argument_error children)),
                    ws @ concat (map repair_warning children)))"
  by (simp add: enter_prelude_def for_each_result split: option.splits)

lemma fix_regexps_result:
  "fix_regexps n st =
     (if regexp_without_argument n then Inl TypeError
      else Inr (repair n, fst st @ map Line (regexp_argument_errors n),
                snd st @ repair_warnings n))"
  "fix_regexps_list ns st =
     (if list_ex regexp_without_argument ns then Inl TypeError
      else Inr (map repair ns, fst st @ map Line (concat (map regexp_argument_errors ns)),
                snd st @ concat (map repair_warnings ns)))"
proof (induction n st and ns st rule: fix_regexps_fix_regexps_list.induct)
  case (1 name prelude block st)
  obtain es ws where st: "st = (es, ws)" by (cases st)
  show ?case
  proof (cases block)
    case None
    then show ?thesis
      by (simp add: st enter_prelude_result split: option.splits)
  next
    case (Some children)
    show ?thesis
    proof (cases "enter_prelude name prelude st")
      case (Inl e)
      then show ?thesis
        by (auto simp: st enter_prelude_result Some split: option.splits if_splits)
    next
      case (Inr b)
      obtain prelude' es1 ws1 where b: "b = (prelude', es1, ws1)" by (cases b)
      from "1.IH" [OF Inr _ Some, of prelude' "(es1, ws1)"] b
      have IH: "fix_regexps_list children (es1, ws1) =
        (if list_ex regexp_without_argument children then Inl TypeError
         else Inr (map repair children,
                   es1 @ map Line (concat (map regexp_argument_errors children)),
                   ws1 @ concat (map repair_warnings children)))"
        by simp
      from Inr b show ?thesis
        by (auto simp: st enter_prelude_result Some IH split: option.splits if_splits)
    qed
  qed
next
  case (2 prelude children st)
  then show ?case by simp
next
  case (3 loc imp p v st)
  show ?case by simp
next
  case (4 t st)
  show ?case by simp
next
  case (5 st)
  show ?case by simp
next
  case (6 n ns st)
  show ?case
  proof (cases "regexp_without_argument n")
    case True
    with "6.IH"(1) show ?thesis by simp
  next
    case False
    with "6.IH"(1) have
      n: "fix_regexps n st = Inr (repair n, fst st @ map Line (regexp_argument_errors n),
                                  snd st @ repair_warnings n)"
      by simp
    from "6.IH"(2) [OF n refl] n False show ?thesis by simp
  qed
qed

lemma mark_important_preludes:
  "regexp_argument_errors (mark_important n) = regexp_argument_errors n"
  "repair_warnings (mark_important n) = repair_warnings n"
  "regexp_without_argument (mark_important n) = regexp_without_argument n"
  by (induction n rule: mark_important.induct)
     (auto simp: map_concat comp_def list_ex_iff split: option.splits
           intro!: arg_cong [where f = concat])

section \<open>An instance of the library\<close>

text \<open>
  An instance of the three parameters that follows css-tree on two style sheets: the
  trees its parser builds for them (positions are 1-based lines and columns; any other
  text is answered with a parse error), the one declaration its lexer rejects
  (\<open>color:5px\<close>, a \<open>SyntaxMatchError\<close> at the value, with the raw message \<open>Mismatch\<close>
  and a message that adds the lines for the syntax, the value and the pointer), and
  its generator on such trees, which writes \<open>!important\<close> behind the value of a
  declaration whose flag is set.
\<close>

fun generate_prelude_node :: "prelude_node \<Rightarrow> string" where
  "generate_prelude_node (PreludeNode t l n v children) =
     (if t = ''Function'' then n @ ''('' @ concat (map generate_prelude_node children) @ '')''
      else if t = ''Identifier'' then n
      else v)"

fun generate_node :: "node \<Rightarrow> string"
  and generate_block :: "node list \<Rightarrow> string" where
  "generate_node (Atrule name prelude block) =
     ''@'' @ name
     @ (case prelude of None \<Rightarrow> [] | Some children \<Rightarrow> '' '' @ concat (map generate_prelude_node children))
     @ (case block of None \<Rightarrow> '';'' | Some children \<Rightarrow> ''{'' @ generate_block children @ ''}'')"
| "generate_node (Rule prelude children) = prelude @ ''{'' @ generate_block children @ ''}''"
| "generate_node (Declaration loc imp prop v) =
     prop @ '':'' @ v
     @ (case imp of Flag b \<Rightarrow> if b then ''!important'' else [] | Custom s \<Rightarrow> ''!'' @ s)"
| "generate_node (Other t) = t"
| "generate_block [] = []"
| "generate_block (n # ns) =
     generate_node n
     @ (case n of Declaration loc imp prop v \<Rightarrow> if ns = [] then [] else '';'' | _ \<Rightarrow> [])
     @ generate_block ns"

definition example_document :: string where
  "example_document = ''@-moz-document regexp(a){b{color:red}}''"

definition example_tree :: "node list" where
  "example_tree =
     [Atrule ''-moz-document''
        (Some [PreludeNode ''Function'' (Position 1 16) ''regexp'' []
                 [PreludeNode ''Identifier'' (Position 1 23) ''a'' [] []]])
        (Some [Rule ''b'' [Declaration (Position 1 28) (Flag False) ''color'' ''red'']])]"

definition mismatch_message :: string where
  "mismatch_message =
     ''Mismatch'' @ [newline] @ ''  syntax: <color>'' @ [newline] @ ''   value: 5px''
     @ [newline] @ ''  --------^''"

definition example_csstree :: csstree where
  "example_csstree =
     \<lparr>parse = (\<lambda>css.
          if css = example_document then (example_tree, [])
          else if css = ''a{color:5px}''
          then ([Rule ''a'' [Declaration (Position 1 3) (Flag False) ''color'' ''5px'']], [])
          else ([], [''Parse error''])),
      matchDeclaration = (\<lambda>nd.
          if property nd = ''color'' \<and> declaration_value nd = ''5px''
          then Some (MatchError ''SyntaxMatchError'' (Some ''Mismatch'')
                       (Some mismatch_message) (Some 1) (Some 9)
                       (''SyntaxMatchError: '' @ mismatch_message))
          else None),
      generate = generate_block\<rparr>"

lemma toString_small:
  "toString 1 = ''1''" "toString 3 = ''3''" "toString 9 = ''9''" "toString 16 = ''16''"
  "toString 23 = ''23''" "toString 28 = ''28''"
  by (simp_all add: toString_def digits.simps)

section \<open>Claims about \<open>escapeCSSRegExp\<close>\<close>

text \<open>
  C3: for every string \<open>s\<close>, if \<open>s\<close> contains two backslashes in a row then
  \<open>escapeCSSRegExp s\<close> is \<open>s\<close>; otherwise it is \<open>s\<close> with one more backslash inserted
  after every occurrence of a code unit other than a backslash immediately followed by
  a backslash, and nothing else changed.
\<close>

theorem escapeCSSRegExp_spec:
  "escapeCSSRegExp s =
     (if string_includes s [backslash, backslash] then s else insert_after_occurrences s)"
  by (simp add: escapeCSSRegExp_def insert_after_occurrences_from
      replace_single_escapes_from [of s None])

text \<open>
  C4 as stated fails: the string of the two code units backslash and \<open>w\<close> has no code
  unit before its backslash, so the pattern finds no match and the string comes back
  as it is, not with the backslash doubled.
\<close>

theorem escapeCSSRegExp_leading_backslash:
  "escapeCSSRegExp [backslash, CHR ''w''] = [backslash, CHR ''w'']
   \<and> escapeCSSRegExp [backslash, CHR ''w''] \<noteq> [backslash, backslash, CHR ''w'']"
  by (simp add: escapeCSSRegExp_def)

text \<open>
  C4, amended: \<open>escapeCSSRegExp\<close> doubles the backslash of backslash-\<open>w\<close> when a code
  unit other than a backslash stands before it, as the opening quote does in the
  value of a string literal (the only argument the program passes): the quoted
  backslash-\<open>w\<close> becomes the quoted backslash-backslash-\<open>w\<close>. Applied to any string
  containing two backslashes in a row (such as backslash-backslash-\<open>w\<close>) it returns
  the string unchanged.
\<close>

theorem escapeCSSRegExp_examples:
  "(c \<noteq> backslash \<and> d \<noteq> backslash \<longrightarrow>
      escapeCSSRegExp [c, backslash, CHR ''w'', d] = [c, backslash, backslash, CHR ''w'', d])
   \<and> (string_includes s [backslash, backslash] \<longrightarrow> escapeCSSRegExp s = s)"
  by (simp add: escapeCSSRegExp_def)

theorem escapeCSSRegExp_examples_witness:
  "escapeCSSRegExp [CHR 0x22, backslash, CHR ''w'', CHR 0x22]
     = [CHR 0x22, backslash, backslash, CHR ''w'', CHR 0x22]
   \<and> escapeCSSRegExp [backslash, backslash, CHR ''w''] = [backslash, backslash, CHR ''w'']"
proof -
  have q: "CHR 0x22 \<noteq> backslash \<and> CHR 0x22 \<noteq> backslash" by simp
  have i: "string_includes [backslash, backslash, CHR ''w''] [backslash, backslash]" by simp
  from escapeCSSRegExp_examples [of "CHR 0x22" "CHR 0x22" "[backslash, backslash, CHR ''w'']"] q i
  show ?thesis by blast
qed

section \<open>Importance escalation is idempotent\<close>

lemma value_then_end_split:
  "value_then_end t = Some (body, rest) \<Longrightarrow>
     t = body @ CHR '';'' # newline # rest \<and> CHR ''!'' \<notin> set body"
proof (induction t arbitrary: body)
  case Nil
  then show ?case by simp
next
  case (Cons c cs)
  show ?case
  proof (cases "c = CHR '';'' \<and> take 1 cs = [newline]")
    case True
    with Cons.prems have "body = []" "rest = drop 1 cs" by auto
    moreover from True have "cs = newline # drop 1 cs" by (cases cs) auto
    ultimately show ?thesis using True by simp
  next
    case False
    with Cons.prems obtain b where b: "value_then_end cs = Some (b, rest)" "body = c # b" "c \<noteq> CHR ''!''"
      by (auto split: if_splits)
    with Cons.IH [of b] show ?thesis by simp
  qed
qed

lemma adjustPriority_take1: "take (Suc 0) (adjustPriority s) = take (Suc 0) s"
  by (cases s) (auto split: option.splits)

lemma blocked_stays_blocked:
  "value_then_end t = None \<Longrightarrow> value_then_end (adjustPriority t) = None"
proof (induction t)
  case Nil
  then show ?case by simp
next
  case (Cons c cs)
  from Cons.prems have notend: "\<not> (c = CHR '';'' \<and> take 1 cs = [newline])"
    by (auto split: if_splits)
  from Cons.prems have copy: "adjustPriority (c # cs) = c # adjustPriority cs"
    by (auto simp: match_after_colon_eq split: if_splits option.splits)
  show ?case
  proof (cases "c = CHR ''!''")
    case True
    then show ?thesis unfolding copy by simp
  next
    case False
    with Cons.prems notend have "value_then_end cs = None" by (auto split: if_splits)
    then have "value_then_end (adjustPriority cs) = None" by (rule Cons.IH)
    with notend False show ?thesis unfolding copy by (simp add: adjustPriority_take1)
  qed
qed

lemma body_blocked:
  "value_then_end t = Some (body, rest) \<Longrightarrow>
     value_then_end (body @ CHR '' '' # CHR ''!'' # w) = None"
proof (induction t arbitrary: body)
  case Nil
  then show ?case by simp
next
  case (Cons c cs)
  show ?case
  proof (cases "c = CHR '';'' \<and> take 1 cs = [newline]")
    case True
    with Cons.prems have "body = []" by auto
    then show ?thesis by simp
  next
    case False
    with Cons.prems obtain b where b: "value_then_end cs = Some (b, rest)" "body = c # b" "c \<noteq> CHR ''!''"
      by (auto split: if_splits)
    from value_then_end_split [OF b(1)] have cs: "cs = b @ CHR '';'' # newline # rest" by simp
    have "take 1 (b @ CHR '' '' # CHR ''!'' # w) = [newline] \<Longrightarrow> take 1 cs = [newline]"
      by (subst cs, cases b) auto
    with False have "\<not> (c = CHR '';'' \<and> take 1 (b @ CHR '' '' # CHR ''!'' # w) = [newline])"
      by blast
    with b Cons.IH [OF b(1)] show ?thesis by simp
  qed
qed

lemma blocked_suffix:
  assumes "CHR ''!'' \<notin> set (c # b)" "\<forall>w. value_then_end ((c # b) @ CHR '' '' # CHR ''!'' # w) = None"
  shows "\<forall>w. value_then_end (b @ CHR '' '' # CHR ''!'' # w) = None"
proof
  fix w
  from assms(2) have "value_then_end (c # (b @ CHR '' '' # CHR ''!'' # w)) = None" by simp
  with assms(1) show "value_then_end (b @ CHR '' '' # CHR ''!'' # w) = None"
    by (auto split: if_splits)
qed

lemma adjustPriority_blocked_body:
  "CHR ''!'' \<notin> set body \<Longrightarrow>
   \<forall>w. value_then_end (body @ CHR '' '' # CHR ''!'' # w) = None \<Longrightarrow>
   adjustPriority (body @ '' !important;'' @ newline # r) =
     body @ '' !important;'' @ newline # adjustPriority r"
proof (induction body)
  case Nil
  show ?case by simp
next
  case (Cons c b)
  have sfx: "\<forall>w. value_then_end (b @ CHR '' '' # CHR ''!'' # w) = None"
    using blocked_suffix [OF Cons.prems] .
  from Cons.prems(1) have nb: "CHR ''!'' \<notin> set b" by simp
  have IH: "adjustPriority (b @ '' !important;'' @ newline # r) =
     b @ '' !important;'' @ newline # adjustPriority r"
    using Cons.IH [OF nb sfx] .
  have blocked: "value_then_end (b @ '' !important;'' @ newline # r) = None"
    using sfx by simp
  show ?case
    using IH blocked by (simp add: match_after_colon_eq)
qed

lemma adjustPriority_idem: "adjustPriority (adjustPriority s) = adjustPriority s"
proof (induction s rule: adjustPriority.induct)
  case 1
  show ?case by simp
next
  case (2 c cs)
  show ?case
  proof (cases "c = CHR '':''")
    case False
    with 2 show ?thesis by simp
  next
    case True
    show ?thesis
    proof (cases "value_then_end cs")
      case None
      then have "value_then_end (adjustPriority cs) = None" by (rule blocked_stays_blocked)
      with None True 2 show ?thesis by (simp add: match_after_colon_eq)
    next
      case (Some m)
      obtain body rest where m: "m = (body, rest)" by (cases m)
      with Some have vte: "value_then_end cs = Some (body, rest)" by simp
      have step: "adjustPriority (c # cs) = c # body @ '' !important;'' @ newline # adjustPriority rest"
        using True vte by (simp add: match_after_colon_eq)
      have IH: "adjustPriority (adjustPriority rest) = adjustPriority rest"
      proof (rule "2.IH"(2) [OF True])
        show "match_after_colon cs = Some (body, rest)" using vte by (simp add: match_after_colon_eq)
        show "(body, rest) = (body, rest)" ..
      qed
      have nb: "CHR ''!'' \<notin> set body" using value_then_end_split [OF vte] by simp
      have bl: "\<forall>w. value_then_end (body @ CHR '' '' # CHR ''!'' # w) = None"
        using body_blocked [OF vte] by simp
      have "adjustPriority (c # body @ '' !important;'' @ newline # adjustPriority rest)
            = c # adjustPriority (body @ '' !important;'' @ newline # adjustPriority rest)"
        using True bl by (simp add: match_after_colon_eq)
      also have "\<dots> = c # body @ '' !important;'' @ newline # adjustPriority (adjustPriority rest)"
        using adjustPriority_blocked_body [OF nb bl] by simp
      finally show ?thesis unfolding step IH .
    qed
  qed
qed


lemma mark_important_idem: "mark_important (mark_important n) = mark_important n"
  by (induction n rule: mark_important.induct)
    (auto simp: option.map_comp intro!: option.map_cong)

text \<open>
  C8: importance escalation is idempotent. Textual strategy: \<open>adjustPriority\<close> applied
  twice gives what it gives applied once, for every string. Structural strategy:
  setting \<open>important\<close> to true on every declaration of a tree twice gives the same tree
  as doing it once.
\<close>

theorem importance_escalation_idempotent:
  "adjustPriority (adjustPriority s) = adjustPriority s
   \<and> map mark_important (map mark_important ast) = map mark_important ast"
  by (simp add: adjustPriority_idem mark_important_idem)

section \<open>Claims about \<open>validateAndTransformCSS\<close>\<close>

text \<open>
  C1: for every CSS input on which the parser or the matching of the declarations
  collects at least one error, \<open>validateAndTransformCSS\<close> returns the collected errors,
  an empty list of warnings and, as \<open>transformed\<close>, the input itself: no declaration is
  marked important and no \<open>regexp()\<close> argument is repaired.
\<close>

theorem validation_errors_short_circuit:
  assumes "parse lib css = (ast, parse_errors)"
    and "parse_errors \<noteq> []
         \<or> (\<exists>d\<in>set (concat (map declarations ast)). declaration_report lib d \<noteq> None)"
  shows "validateAndTransformCSS lib css =
     Inr \<lparr>errors = map SyntaxError parse_errors
                    @ map Line (List.map_filter (declaration_report lib)
                                  (concat (map declarations ast))),
          warnings = [], transformed = css\<rparr>"
proof -
  have "collected_errors lib css \<noteq> []"
    using assms by (auto simp: collected_errors_def List.map_filter_def filter_empty_conv)
  with assms(1) show ?thesis
    by (simp add: validateAndTransformCSS_def collected_errors_def)
qed

text \<open>The style sheet \<open>a{color:5px}\<close> of the instance, whose declaration does not match.\<close>

theorem validation_errors_short_circuit_witness:
  "validateAndTransformCSS example_csstree ''a{color:5px}'' =
     Inr \<lparr>errors = [Line (''1:9 (color): Invalid value for '' @ [CHR 0x60] @ ''color''
                            @ [CHR 0x60, newline] @ ''SyntaxMatchError: ''
                            @ mismatch_message)],
          warnings = [], transformed = ''a{color:5px}''\<rparr>"
proof -
  let ?ast = "[Rule ''a'' [Declaration (Position 1 3) (Flag False) ''color'' ''5px'']]"
  have p: "parse example_csstree ''a{color:5px}'' = (?ast, [])"
    by (simp add: example_csstree_def example_document_def)
  have r: "declaration_report example_csstree
             (Declaration (Position 1 3) (Flag False) ''color'' ''5px'')
           = Some (''1:9 (color): Invalid value for '' @ [CHR 0x60] @ ''color''
                   @ [CHR 0x60, newline] @ ''SyntaxMatchError: '' @ mismatch_message)"
    by (simp add: declaration_report_def example_csstree_def truthy_def or_number_def
        toString_small)
  have h: "[] \<noteq> ([] :: string list)
         \<or> (\<exists>d\<in>set (concat (map declarations ?ast)). declaration_report example_csstree d \<noteq> None)"
    using r by simp
  show ?thesis
    using validation_errors_short_circuit [OF p h] r by (simp add: List.map_filter_def)
qed

text \<open>
  C2 as stated fails. On \<open>@-moz-document regexp(a){b{color:red}}\<close> nothing is collected
  by the parser or the first walk; the third walk pushes the error for the argument
  \<open>a\<close>, which is an identifier, and the function then returns the generated text of the
  tree, in which the declaration is marked important: the errors are not empty and
  \<open>transformed\<close> is not the input.
\<close>

theorem regexp_error_not_short_circuit:
  "validateAndTransformCSS example_csstree example_document =
     Inr \<lparr>errors = [Line ''1:23: regexp() argument must be a String''], warnings = [],
          transformed = ''@-moz-document regexp(a){b{color:red!important}}''\<rparr>
   \<and> ''@-moz-document regexp(a){b{color:red!important}}'' \<noteq> example_document"
  by (simp add: validateAndTransformCSS_def collected_errors_def example_csstree_def
      example_document_def example_tree_def List.map_filter_def declaration_report_def
      enter_prelude_def fix_prelude_function_def toString_small)

text \<open>
  C2, amended: for every CSS input on which the parser and the matching of the
  declarations collect no error, and in which no \<open>regexp()\<close> call of a \<open>document\<close> or
  \<open>-moz-document\<close> prelude is without an argument, the returned errors are exactly the
  lines \<open>line:column: regexp() argument must be a String\<close> of the \<open>regexp()\<close> calls in
  such preludes whose first argument is not a string literal, in the order of the
  text; there is no short-circuit: \<open>transformed\<close> is the text generated from the tree
  after every declaration was marked important and the string arguments of the other
  \<open>regexp()\<close> calls were repaired, and the warnings of these repairs are returned.
\<close>

theorem regexp_argument_errors_recorded:
  assumes "parse lib css = (ast, [])"
    and "\<forall>d\<in>set (concat (map declarations ast)). declaration_report lib d = None"
    and "\<not> list_ex regexp_without_argument ast"
  shows "validateAndTransformCSS lib css =
     Inr \<lparr>errors = map Line (concat (map regexp_argument_errors ast)),
          warnings = concat (map repair_warnings ast),
          transformed = generate lib (map repair (map mark_important ast))\<rparr>"
proof -
  have none: "collected_errors lib css = []"
    using assms(1,2) by (auto simp: collected_errors_def List.map_filter_def filter_empty_conv)
  have m: "map regexp_argument_errors (map mark_important ast) = map regexp_argument_errors ast"
    "map repair_warnings (map mark_important ast) = map repair_warnings ast"
    "list_ex regexp_without_argument (map mark_important ast) = list_ex regexp_without_argument ast"
    by (simp_all add: mark_important_preludes list_ex_iff)
  show ?thesis
    using assms(1,3) none
    by (simp add: validateAndTransformCSS_def fix_regexps_result(2) m del: map_map)
qed

theorem regexp_argument_errors_recorded_witness:
  "validateAndTransformCSS example_csstree example_document =
     Inr \<lparr>errors = [Line ''1:23: regexp() argument must be a String''], warnings = [],
          transformed = ''@-moz-document regexp(a){b{color:red!important}}''\<rparr>"
proof -
  have p: "parse example_csstree example_document = (example_tree, [])"
    by (simp add: example_csstree_def)
  have d: "\<forall>d\<in>set (concat (map declarations example_tree)).
             declaration_report example_csstree d = None"
    by (simp add: example_tree_def declaration_report_def example_csstree_def)
  have a: "\<not> list_ex regexp_without_argument example_tree"
    by (simp add: example_tree_def lacks_argument_def)
  show ?thesis
    using regexp_argument_errors_recorded [OF p d a]
    by (simp add: example_tree_def example_csstree_def regexp_argument_error_def
        repair_warning_def repair_argument_def toString_small)
qed

section \<open>Claims about \<open>colorHexToRGB\<close>\<close>

text \<open>
  Bits \<open>k\<close> to \<open>k + 7\<close> of an integer in two's complement, and the integer a Number
  stands for under the bit operators (0 for \<open>NaN\<close> and the infinities).
\<close>

definition bits :: "nat \<Rightarrow> int \<Rightarrow> int" where
  "bits k v = (v div 2 ^ k) mod 2 ^ 8"

definition number_integer :: "number \<Rightarrow> int" where
  "number_integer v = (case v of Finite i \<Rightarrow> i | _ \<Rightarrow> 0)"

text \<open>
  The claim's wording: the remainder parsed with decimal semantics, that is, as
  \<open>parseInt\<close> reads it with radix 10 and no look at a \<open>0x\<close> prefix; and the text
  \<open>R, G, B\<close> made of bits 16 to 23, 8 to 15 and 0 to 7 of the parsed value.
\<close>

definition parse_decimal :: "string \<Rightarrow> number" where
  "parse_decimal string =
     (let (sign, s) = strip_sign (dropWhile isStrWhiteSpaceChar string)
      in parse_digits 10 sign s)"

definition rgb_text :: "number \<Rightarrow> string" where
  "rgb_text v =
     toString (bits 16 (number_integer v)) @ '', '' @ toString (bits 8 (number_integer v))
     @ '', '' @ toString (bits 0 (number_integer v))"

definition begins_with_decimal_number :: "string \<Rightarrow> bool" where
  "begins_with_decimal_number t =
     (case snd (strip_sign (dropWhile isStrWhiteSpaceChar t)) of
        [] \<Rightarrow> False
      | c # cs \<Rightarrow> is_digit 10 c)"

lemma low_byte_mask: "(0xff :: 32 word) = mask 8"
  by (simp add: mask_eq_exp_minus_1)

lemma byte_of_int32:
  assumes "k \<le> 24"
  shows "sint (signed_drop_bit k (word_of_int i :: 32 word) AND 0xff) = bits k i"
proof -
  have "sint (signed_drop_bit k (word_of_int i :: 32 word) AND mask 8)
        = take_bit 8 (drop_bit k i)"
    by (rule bit_eqI) (use assms in \<open>auto simp: bit_simps\<close>)
  then show ?thesis
    by (simp add: low_byte_mask bits_def take_bit_eq_mod drop_bit_eq_div)
qed

lemma byte_of_int32_0: "sint ((word_of_int i :: 32 word) AND 0xff) = bits 0 i"
  using byte_of_int32 [of 0 i] by simp


lemma ToInt32_number_integer: "ToInt32 v = word_of_int (number_integer v)"
  by (cases v) (simp_all add: ToInt32_def number_integer_def)

lemma colorHexToRGB_rgb_text: "colorHexToRGB s = rgb_text (parseInt (drop 1 s))"
  by (simp add: colorHexToRGB_def rgb_text_def Let_def ToInt32_number_integer
      byte_of_int32 byte_of_int32_0)

lemma bits_range: "0 \<le> bits k v \<and> bits k v \<le> 255"
proof -
  have "bits k v < 2 ^ 8" unfolding bits_def by (rule pos_mod_bound) simp
  moreover have "0 \<le> bits k v" unfolding bits_def by (rule pos_mod_sign) simp
  ultimately show ?thesis by simp
qed

lemma parseInt_decimal:
  "\<not> hex_prefixed (snd (strip_sign (dropWhile isStrWhiteSpaceChar t)))
   \<Longrightarrow> parseInt t = parse_decimal t"
  by (cases "strip_sign (dropWhile isStrWhiteSpaceChar t)")
    (simp add: parseInt_def parse_decimal_def)

lemma toString_0: "toString 0 = ''0''"
  by (simp add: toString_def digits.simps)

lemma rgb_text_NaN: "rgb_text NaN = ''0, 0, 0''"
  by (simp add: rgb_text_def number_integer_def bits_def toString_0)

lemma hex_prefixed_digit: "hex_prefixed t \<Longrightarrow> \<exists>cs. t = CHR ''0'' # cs"
  by (cases t) (auto simp: hex_prefixed_def)

lemma is_digit_zero: "is_digit 10 (CHR ''0'')"
  by (simp add: is_digit_def digit_value_def)

text \<open>
  C5 as stated fails: behind the first character of \<open>#0x10\<close> stands \<open>0x10\<close>, which
  \<open>parseInt\<close> reads in base 16 as 16, where the decimal reading stops behind the \<open>0\<close>.
\<close>

theorem colorHexToRGB_decimal_counterexample:
  "colorHexToRGB ''#0x10'' = ''0, 0, 16'' \<and> rgb_text (parse_decimal (drop 1 ''#0x10'')) = ''0, 0, 0''"
  by code_simp

text \<open>
  C5, amended: for every input string \<open>colorHexToRGB\<close> drops the first character,
  parses the remainder as \<open>parseInt\<close> without a radix does (in base 10, unless the
  remainder, behind white space and a sign, starts with \<open>0x\<close> or \<open>0X\<close>, which selects base
  16), takes red from bits 16 to 23, green from bits 8 to 15 and blue from bits 0 to 7
  of the parsed value, and returns \<open>R, G, B\<close> in decimal, each component between 0 and
  255.
\<close>

theorem colorHexToRGB_bits:
  "colorHexToRGB s = rgb_text (parseInt (drop 1 s))
   \<and> 0 \<le> bits k (number_integer (parseInt (drop 1 s)))
   \<and> bits k (number_integer (parseInt (drop 1 s))) \<le> 255
   \<and> (\<not> hex_prefixed (snd (strip_sign (dropWhile isStrWhiteSpaceChar (drop 1 s))))
        \<longrightarrow> parseInt (drop 1 s) = parse_decimal (drop 1 s))"
  using colorHexToRGB_rgb_text [of s] bits_range [of k] parseInt_decimal [of "drop 1 s"]
  by blast

theorem colorHexToRGB_bits_witness:
  "\<not> hex_prefixed (snd (strip_sign (dropWhile isStrWhiteSpaceChar (drop 1 ''#123456''))))
   \<and> parse_decimal (drop 1 ''#123456'') = Finite 123456
   \<and> colorHexToRGB ''#123456'' = ''1, 226, 64''"
proof -
  have h: "\<not> hex_prefixed (snd (strip_sign (dropWhile isStrWhiteSpaceChar (drop 1 ''#123456''))))"
    by code_simp
  have d: "parse_decimal (drop 1 ''#123456'') = Finite 123456"
    by code_simp
  have t: "rgb_text (Finite 123456) = ''1, 226, 64''"
    by code_simp
  from colorHexToRGB_bits [of "''#123456''" 0] h d t show ?thesis by simp
qed

text \<open>
  C10: for every input string whose remainder behind the first character does not
  begin with a parseable decimal number (behind white space and a sign there is no
  decimal digit), \<open>parseInt\<close> yields \<open>NaN\<close> and \<open>colorHexToRGB\<close> returns \<open>0, 0, 0\<close>.
\<close>

theorem colorHexToRGB_not_a_number:
  assumes "\<not> begins_with_decimal_number (drop 1 s)"
  shows "parseInt (drop 1 s) = NaN \<and> colorHexToRGB s = ''0, 0, 0''"
proof -
  obtain sign t where st: "strip_sign (dropWhile isStrWhiteSpaceChar (drop 1 s)) = (sign, t)"
    by (cases "strip_sign (dropWhile isStrWhiteSpaceChar (drop 1 s))")
  from assms st have nd: "t = [] \<or> \<not> is_digit 10 (hd t)"
    by (auto simp: begins_with_decimal_number_def split: list.splits)
  then have nothex: "\<not> hex_prefixed t"
    using hex_prefixed_digit [of t] is_digit_zero by auto
  from nd have "takeWhile (is_digit 10) t = []" by (cases t) auto
  with st nothex have "parseInt (drop 1 s) = NaN"
    by (simp add: parseInt_def parse_digits_def)
  then show ?thesis by (simp add: colorHexToRGB_rgb_text rgb_text_NaN)
qed

theorem colorHexToRGB_not_a_number_witness:
  "\<not> begins_with_decimal_number (drop 1 ''#ffffff'') \<and> colorHexToRGB ''#ffffff'' = ''0, 0, 0''"
proof -
  have h: "\<not> begins_with_decimal_number (drop 1 ''#ffffff'')"
    by code_simp
  with colorHexToRGB_not_a_number [OF h] show ?thesis by simp
qed

section \<open>The two sides of \<open>replaceAll\<close>\<close>

text \<open>
  The pattern built from the escaped text is the text itself, so the search is for the
  literal placeholder; the replacement is copied as it is when it has no dollar sign.
\<close>

lemma pattern_characters_Cons:
  "c \<noteq> backslash \<Longrightarrow> pattern_characters (c # cs) = c # pattern_characters cs"
  by (cases cs) simp_all

lemma pattern_characters_escape_find: "pattern_characters (escape_find s) = s"
proof (induction s)
  case Nil
  show ?case by simp
next
  case (Cons c s)
  show ?case
  proof (cases "c \<in> set syntax_characters")
    case True
    with Cons show ?thesis by simp
  next
    case False
    then have "c \<noteq> backslash" by (auto simp: syntax_characters_def)
    with False Cons show ?thesis by (simp add: pattern_characters_Cons)
  qed
qed

lemma getSubstitution_literal:
  "CHR ''$'' \<notin> set replace \<Longrightarrow> getSubstitution matched preceding following replace = replace"
  by (induction matched preceding following replace rule: getSubstitution.induct) auto

section \<open>Claims about the variables\<close>

text \<open>
  C6, on the code: a \<open>uso\<close> style with the text variable \<open>c\<close> whose value is \<open>$&\<close>. The
  replacement text is not taken literally: \<open>$&\<close> stands for the matched placeholder,
  so the placeholder is replaced by itself and not by the two characters of the
  value.
\<close>

definition uso_metadata :: metadata where
  "uso_metadata =
     \<lparr>preprocessor = Some ''uso'',
      vars = Some [(''c'', \<lparr>var_type = ''text'', var_default = ''$&'',
                            var_options = None, var_units = None\<rparr>)]\<rparr>"

theorem assignVariables_dollar_pattern:
  "assignVariables ''a{b:/*[[c]]*/}'' uso_metadata = Inr ''a{b:/*[[c]]*/}''"
  by (simp add: assignVariables_def uso_metadata_def assign_variable_def valueForVariable_def
      replaceAll_def syntax_characters_def)

definition light_dark :: "select_option list" where
  "light_dark =
     [\<lparr>option_name = ''light'', option_label = ''Light'', option_value = ''#fff''\<rparr>,
      \<lparr>option_name = ''dark'', option_label = ''Dark'', option_value = ''#000''\<rparr>]"

text \<open>
  C7 as stated fails in its second half: the program has no error of its own for a
  default that names no option. The failure is the \<open>TypeError\<close> the runtime throws on
  reading \<open>value\<close> of \<open>undefined\<close>, and it is not distinct: a variable whose options
  are \<open>null\<close>, and a \<open>uso\<close> style without \<open>vars\<close>, fail with the same error.
\<close>

theorem valueForVariable_failure_not_distinct:
  "valueForVariable \<lparr>var_type = ''select'', var_default = ''blue'',
                      var_options = Some light_dark, var_units = None\<rparr> = Inl TypeError
   \<and> valueForVariable \<lparr>var_type = ''select'', var_default = ''blue'',
                        var_options = None, var_units = None\<rparr> = Inl TypeError
   \<and> assignVariables ''a{}'' \<lparr>preprocessor = Some ''uso'', vars = None\<rparr> = Inl TypeError"
  by (simp add: valueForVariable_def assignVariables_def light_dark_def)

text \<open>
  C7, amended: for every variable of type \<open>select\<close>, \<open>dropdown\<close> or \<open>image\<close>,
  \<open>valueForVariable\<close> returns the \<open>value\<close> of the (first) option whose name equals the
  variable's default; when no option has that name (or there are no options at all)
  it does not return a value but fails, with the generic \<open>TypeError\<close> the runtime
  throws and not with an error of its own.
\<close>

theorem valueForVariable_options:
  assumes "var_type v = ''select'' \<or> var_type v = ''dropdown'' \<or> var_type v = ''image''"
  shows "(\<forall>options i. var_options v = Some options \<and> i < length options
             \<and> option_name (options ! i) = var_default v
             \<and> (\<forall>j<i. option_name (options ! j) \<noteq> var_default v)
           \<longrightarrow> valueForVariable v = Inr (option_value (options ! i)))
       \<and> ((\<forall>options. var_options v = Some options
             \<longrightarrow> (\<forall>option\<in>set options. option_name option \<noteq> var_default v))
           \<longrightarrow> valueForVariable v = Inl TypeError)"
proof (intro conjI allI impI)
  fix options i
  assume a: "var_options v = Some options \<and> i < length options
             \<and> option_name (options ! i) = var_default v
             \<and> (\<forall>j<i. option_name (options ! j) \<noteq> var_default v)"
  then have "find (\<lambda>option. option_name option = var_default v) options = Some (options ! i)"
    by (auto simp: find_Some_iff)
  with a assms show "valueForVariable v = Inr (option_value (options ! i))"
    by (auto simp: valueForVariable_def)
next
  assume n: "\<forall>options. var_options v = Some options
             \<longrightarrow> (\<forall>option\<in>set options. option_name option \<noteq> var_default v)"
  show "valueForVariable v = Inl TypeError"
  proof (cases "var_options v")
    case None
    with assms show ?thesis by (auto simp: valueForVariable_def)
  next
    case (Some options)
    with n have "find (\<lambda>option. option_name option = var_default v) options = None"
      by (auto simp: find_None_iff)
    with Some assms show ?thesis by (auto simp: valueForVariable_def)
  qed
qed

theorem valueForVariable_options_witness:
  "valueForVariable \<lparr>var_type = ''select'', var_default = ''dark'',
                      var_options = Some light_dark, var_units = None\<rparr> = Inr ''#000''
   \<and> valueForVariable \<lparr>var_type = ''select'', var_default = ''blue'',
                        var_options = Some light_dark, var_units = None\<rparr> = Inl TypeError"
proof -
  let ?dark = "\<lparr>var_type = ''select'', var_default = ''dark'',
                 var_options = Some light_dark, var_units = None\<rparr>"
  let ?blue = "\<lparr>var_type = ''select'', var_default = ''blue'',
                 var_options = Some light_dark, var_units = None\<rparr>"
  have "valueForVariable ?dark = Inr (option_value (light_dark ! 1))"
    using valueForVariable_options [of ?dark, THEN conjunct1, rule_format, of light_dark 1]
    by (simp add: light_dark_def)
  moreover have "valueForVariable ?blue = Inl TypeError"
    using valueForVariable_options [of ?blue, THEN conjunct2]
    by (simp add: light_dark_def)
  ultimately show ?thesis by (simp add: light_dark_def)
qed

end
